theory Spec2Isabelle
  imports Complex_Main "HOL-Library.Sublist"
begin

section \<open>Strings and JavaScript values\<close>

text \<open>
  A JavaScript string is a sequence of UTF-16 code units. The model uses \<open>string\<close>
  (a list of \<open>char\<close>): one \<open>char\<close> stands for one code unit below 256, so
  \<open>length\<close> is the \<open>.length\<close> of the source and \<open>take n\<close> is \<open>.substring(0, n)\<close>.
\<close>

text \<open>\<open>s.split('\n')\<close>: the pieces between line feeds; never the empty array.\<close>

fun split_newline :: "string \<Rightarrow> string list" where
  "split_newline [] = [[]]"
| "split_newline (c # cs) =
     (if c = CHR ''\<newline>'' then [] # split_newline cs
      else (case split_newline cs of
              [] \<Rightarrow> [[c]]
            | l # ls \<Rightarrow> (c # l) # ls))"

text \<open>\<open>parts.join('\n')\<close>.\<close>

fun join_newline :: "string list \<Rightarrow> string" where
  "join_newline [] = []"
| "join_newline [l] = l"
| "join_newline (l # l' # ls) = l @ CHR ''\<newline>'' # join_newline (l' # ls)"

text \<open>
  A value as JSON delivers it (the body of an HTTP response), or \<open>undefined\<close> for a
  property that is not there. JSON has no NaN and no functions.
\<close>

datatype jsval =
    JUndefined
  | JNull
  | JBool bool
  | JNum rat
  | JStr string
  | JArr "jsval list"
  | JObj "(string \<times> jsval) list"

text \<open>What \<open>v || d\<close> and \<open>!v\<close> test.\<close>

fun truthy :: "jsval \<Rightarrow> bool" where
  "truthy JUndefined = False"
| "truthy JNull = False"
| "truthy (JBool b) = b"
| "truthy (JNum n) = (n \<noteq> 0)"
| "truthy (JStr s) = (s \<noteq> [])"
| "truthy (JArr _) = True"
| "truthy (JObj _) = True"

definition js_or :: "jsval \<Rightarrow> jsval \<Rightarrow> jsval" where
  "js_or v d = (if truthy v then v else d)"

text \<open>
  What a \<open>throw\<close> or a rejected promise carries: an \<open>Error\<close> instance with its
  \<open>message\<close> (a \<open>TypeError\<close> is one), or any other value.
\<close>

datatype thrown = Error string | NonError jsval

section \<open>The data model\<close>

record WeaveCodeContext =
  code :: string
  language :: string
  fileName :: string
  line :: nat
  column :: nat

text \<open>\<open>vscode.Position\<close>: a zero-based line and character, both non-negative.\<close>

record Position =
  pos_line :: nat
  character :: nat

datatype result_type = Analysis | Suggestion | Completion

text \<open>
  \<open>WeaveAnalysisResult\<close>. The interface declares \<open>content: string\<close>, but the
  HTTP variant of the assistant fills the field through an unchecked cast of a JSON
  value, so at run time the field holds a JavaScript value: the transports, the
  command handler and the providers work on \<open>jsval WeaveAnalysisResult\<close>, a string
  being \<open>JStr s\<close>. The public methods of the assistant only pass the content on and
  are written for any content type. The timestamp (the wall clock) is left out.
\<close>

record 'c WeaveAnalysisResult =
  rtype :: result_type
  content :: 'c
  details :: "(string \<times> jsval) list option"
  result_language :: string

datatype provider = Openai | Anthropic | Local

text \<open>The settings the assistant reads through \<open>ConfigurationManager\<close>.\<close>

record WeaveConfig =
  apiKey :: string
  cfg_provider :: provider
  model :: string
  temperature :: rat
  maxTokens :: int

fun provider_name :: "provider \<Rightarrow> string" where
  "provider_name Openai = ''openai''"
| "provider_name Anthropic = ''anthropic''"
| "provider_name Local = ''local''"

fun type_name :: "result_type \<Rightarrow> string" where
  "type_name Analysis = ''analysis''"
| "type_name Suggestion = ''suggestion''"
| "type_name Completion = ''completion''"

section \<open>The request composer\<close>

text \<open>
  The template literals of \<open>WeaveAssistant\<close>, one pair per operation. Both variants of
  the assistant (the mock one and the one that calls the HTTP endpoint) hold the same
  templates.
\<close>

definition generatePrompt_systemPrompt :: string where
  "generatePrompt_systemPrompt =
     ''You are an expert at creating optimized prompts for AI models.\<newline>'' @
     ''Analyze the provided code and generate a clear, concise prompt that describes its purpose and functionality.''"

definition generatePrompt_userPrompt :: "WeaveCodeContext \<Rightarrow> string" where
  "generatePrompt_userPrompt ctx =
     ''Analyze this '' @ language ctx @
     '' code and generate an optimized prompt that describes it:\<newline>\<newline>```'' @
     language ctx @ ''\<newline>'' @ code ctx @
     ''\<newline>```\<newline>\<newline>Generate a prompt that:\<newline>'' @
     ''1. Clearly describes what the code does\<newline>'' @
     ''2. Mentions key inputs and outputs\<newline>'' @
     ''3. Includes any important constraints or edge cases\<newline>'' @
     ''4. Is concise but complete''"

definition analyzeCode_systemPrompt :: string where
  "analyzeCode_systemPrompt =
     ''You are a senior software engineer. Provide insightful analysis of code quality,\<newline>'' @
     ''potential issues, and improvements.''"

definition analyzeCode_userPrompt :: "WeaveCodeContext \<Rightarrow> string" where
  "analyzeCode_userPrompt ctx =
     ''Analyze this '' @ language ctx @ '' code:\<newline>\<newline>```'' @
     language ctx @ ''\<newline>'' @ code ctx @
     ''\<newline>```\<newline>\<newline>Provide analysis including:\<newline>'' @
     ''1. Code quality assessment\<newline>'' @
     ''2. Potential bugs or issues\<newline>'' @
     ''3. Performance considerations\<newline>'' @
     ''4. Readability and maintainability\<newline>'' @
     ''5. Best practice recommendations''"

definition suggestOptimization_systemPrompt :: string where
  "suggestOptimization_systemPrompt =
     ''You are an expert at optimizing code. Provide specific, actionable optimization suggestions\<newline>'' @
     ''with example improvements where appropriate.''"

definition suggestOptimization_userPrompt :: "WeaveCodeContext \<Rightarrow> string" where
  "suggestOptimization_userPrompt ctx =
     ''Suggest optimizations for this '' @ language ctx @ '' code:\<newline>\<newline>```'' @
     language ctx @ ''\<newline>'' @ code ctx @
     ''\<newline>```\<newline>\<newline>For each suggestion:\<newline>'' @
     ''1. Explain the current inefficiency\<newline>'' @
     ''2. Provide the optimized approach\<newline>'' @
     ''3. Show a code example if applicable\<newline>'' @
     ''4. Estimate the performance improvement if measurable''"

definition generateCompletion_systemPrompt :: string where
  "generateCompletion_systemPrompt =
     ''You are a code completion expert. Complete the code based on context.\<newline>'' @
     ''Respond with only the completion text, no explanations.''"

text \<open>\<open>lines.slice(0, position.line).join('\n')\<close>\<close>

definition previousLines :: "WeaveCodeContext \<Rightarrow> Position \<Rightarrow> string" where
  "previousLines ctx position =
     join_newline (take (pos_line position) (split_newline (code ctx)))"

definition generateCompletion_userPrompt :: "WeaveCodeContext \<Rightarrow> Position \<Rightarrow> string" where
  "generateCompletion_userPrompt ctx position =
     ''Complete this '' @ language ctx @ '' code based on context:\<newline>\<newline>```'' @
     language ctx @ ''\<newline>'' @ previousLines ctx position @
     ''\<newline>|CURSOR_HERE|\<newline>```\<newline>\<newline>'' @
     ''Provide a natural completion that fits the code style and logic.''"

definition generateDocumentation_systemPrompt :: string where
  "generateDocumentation_systemPrompt =
     ''You are a documentation expert. Generate clear, concise documentation for code.''"

definition generateDocumentation_userPrompt :: "WeaveCodeContext \<Rightarrow> string" where
  "generateDocumentation_userPrompt ctx =
     ''Generate JSDoc/documentation for this '' @ language ctx @ '' code:\<newline>\<newline>```'' @
     language ctx @ ''\<newline>'' @ code ctx @
     ''\<newline>```\<newline>\<newline>'' @
     ''Include description, parameters, return type, and examples where relevant.''"

section \<open>The assistant\<close>

text \<open>
  What the rest of the extension can observe of a run: the calls of the private method
  \<open>callWeaveAPI\<close> (the transport; each shows a progress notification while it is
  pending) and the calls of the host's user interface.
\<close>

text \<open>
  The variable parts of the page \<open>getWebviewContent\<close> builds; the fixed markup
  around them (style sheet, copy button, script) is not modelled.
\<close>

record WebviewContent =
  page_title :: string
  page_content :: string

datatype event =
    CallWeaveAPI string string result_type WeaveCodeContext
  | ShowErrorMessage string
  | ShowInformationMessage string
  | CreateWebviewPanel string
  | SetWebviewHtml WebviewContent
  | ClipboardWriteText jsval

record WeaveAssistant =
  config :: WeaveConfig
  isInitialized :: bool

definition new_WeaveAssistant :: "WeaveConfig \<Rightarrow> WeaveAssistant" where
  "new_WeaveAssistant cfg = \<lparr>config = cfg, isInitialized = False\<rparr>"

text \<open>
  \<open>initialize\<close>: the object after the call, and the error the call throws (if any).
  A call that throws leaves the object as it was.
\<close>

definition initialize :: "WeaveAssistant \<Rightarrow> WeaveAssistant \<times> thrown option" where
  "initialize a =
     (if apiKey (config a) = [] \<and> cfg_provider (config a) \<noteq> Local
      then (a, Some (Error (''API key not configured for '' @ provider_name (cfg_provider (config a)))))
      else (a\<lparr>isInitialized := True\<rparr>, None))"

definition ensureInitialized :: "WeaveAssistant \<Rightarrow> thrown option" where
  "ensureInitialized a =
     (if \<not> isInitialized a then Some (Error ''WeaveAssistant not initialized'') else None)"

definition dispose :: "WeaveAssistant \<Rightarrow> WeaveAssistant" where
  "dispose a = a\<lparr>isInitialized := False\<rparr>"

text \<open>
  The private method \<open>callWeaveAPI\<close>, as the public methods see it: it resolves with a
  result or rejects. The public methods are the same in both variants of the class, so
  they take the transport as a parameter.
\<close>

type_synonym 'c transport =
  "string \<Rightarrow> string \<Rightarrow> result_type \<Rightarrow> WeaveCodeContext \<Rightarrow> thrown + 'c WeaveAnalysisResult"

definition guarded_call ::
  "'c transport \<Rightarrow> WeaveAssistant \<Rightarrow> string \<Rightarrow> string \<Rightarrow> result_type \<Rightarrow> WeaveCodeContext
     \<Rightarrow> event list \<times> (thrown + 'c WeaveAnalysisResult)" where
  "guarded_call api a systemPrompt userPrompt ty ctx =
     (case ensureInitialized a of
        Some e \<Rightarrow> ([], Inl e)
      | None \<Rightarrow> ([CallWeaveAPI systemPrompt userPrompt ty ctx], api systemPrompt userPrompt ty ctx))"

definition generatePrompt ::
  "'c transport \<Rightarrow> WeaveAssistant \<Rightarrow> WeaveCodeContext \<Rightarrow> event list \<times> (thrown + 'c WeaveAnalysisResult)" where
  "generatePrompt api a ctx =
     guarded_call api a generatePrompt_systemPrompt (generatePrompt_userPrompt ctx) Analysis ctx"

definition analyzeCode ::
  "'c transport \<Rightarrow> WeaveAssistant \<Rightarrow> WeaveCodeContext \<Rightarrow> event list \<times> (thrown + 'c WeaveAnalysisResult)" where
  "analyzeCode api a ctx =
     guarded_call api a analyzeCode_systemPrompt (analyzeCode_userPrompt ctx) Analysis ctx"

definition suggestOptimization ::
  "'c transport \<Rightarrow> WeaveAssistant \<Rightarrow> WeaveCodeContext \<Rightarrow> event list \<times> (thrown + 'c WeaveAnalysisResult)" where
  "suggestOptimization api a ctx =
     guarded_call api a suggestOptimization_systemPrompt (suggestOptimization_userPrompt ctx) Suggestion ctx"

definition generateCompletion ::
  "'c transport \<Rightarrow> WeaveAssistant \<Rightarrow> WeaveCodeContext \<Rightarrow> Position \<Rightarrow> event list \<times> (thrown + 'c)" where
  "generateCompletion api a ctx position =
     (case guarded_call api a generateCompletion_systemPrompt
             (generateCompletion_userPrompt ctx position) Completion ctx of
        (evs, Inl e) \<Rightarrow> (evs, Inl e)
      | (evs, Inr result) \<Rightarrow> (evs, Inr (content result)))"

definition generateDocumentation ::
  "'c transport \<Rightarrow> WeaveAssistant \<Rightarrow> WeaveCodeContext \<Rightarrow> event list \<times> (thrown + 'c)" where
  "generateDocumentation api a ctx =
     (case guarded_call api a generateDocumentation_systemPrompt
             (generateDocumentation_userPrompt ctx) Analysis ctx of
        (evs, Inl e) \<Rightarrow> (evs, Inl e)
      | (evs, Inr result) \<Rightarrow> (evs, Inr (content result)))"

subsection \<open>The mock transport\<close>

text \<open>
  \<open>callWeaveAPI\<close> of \<open>src/assistant/weaveAssistant.ts\<close>: a progress notification, a
  delay of one second, and a placeholder.
\<close>

definition callWeaveAPI_mock :: "jsval transport" where
  "callWeaveAPI_mock systemPrompt userPrompt ty ctx =
     Inr \<lparr>rtype = ty,
          content = JStr (''[Mock '' @ type_name ty @
            ''] This is a placeholder response. In production, this would be generated by the Weave framework.''),
          details = None,
          result_language = language ctx\<rparr>"

subsection \<open>The HTTP transport\<close>

record CodeContextInfo =
  info_language :: string
  info_fileName :: string
  info_line :: nat
  info_column :: nat

text \<open>The JSON body posted to \<open>http://localhost:3000/api/v1/generate\<close>.\<close>

record request =
  prompt :: string
  systemPrompt :: string
  req_provider :: provider
  req_model :: string
  req_temperature :: rat
  req_maxTokens :: int
  codeContext :: CodeContextInfo

text \<open>
  \<open>HTTPClient.post\<close> of the package \<open>@weaveai/core\<close>, which is not part of this
  repository: the awaited call hands back a response object or rejects.
\<close>

type_synonym http_post = "request \<Rightarrow> thrown + jsval"

text \<open>
  Reading a property, for the names the source reads (\<open>data\<close>, \<open>tokensUsed\<close>,
  \<open>cost\<close>, \<open>content\<close>, \<open>provider\<close>, \<open>model\<close>): on \<open>undefined\<close> and \<open>null\<close> it
  throws a \<open>TypeError\<close>; an object yields the property or \<open>undefined\<close>; a string, a
  number, a boolean and an array have none of these properties.
\<close>

definition quoted :: "string \<Rightarrow> string" where
  "quoted s = CHR 0x27 # s @ [CHR 0x27]"

fun get_prop :: "jsval \<Rightarrow> string \<Rightarrow> thrown + jsval" where
  "get_prop JUndefined p =
     Inl (Error (''Cannot read properties of undefined (reading '' @ quoted p @ '')''))"
| "get_prop JNull p =
     Inl (Error (''Cannot read properties of null (reading '' @ quoted p @ '')''))"
| "get_prop (JObj kvs) p = Inr (case map_of kvs p of None \<Rightarrow> JUndefined | Some v \<Rightarrow> v)"
| "get_prop _ p = Inr JUndefined"

definition make_request :: "WeaveConfig \<Rightarrow> string \<Rightarrow> string \<Rightarrow> WeaveCodeContext \<Rightarrow> request" where
  "make_request cfg sysPrompt userPrompt ctx =
     \<lparr>prompt = userPrompt,
      systemPrompt = sysPrompt,
      req_provider = cfg_provider cfg,
      req_model = model cfg,
      req_temperature = temperature cfg,
      req_maxTokens = maxTokens cfg,
      codeContext = \<lparr>info_language = language ctx, info_fileName = fileName ctx,
                      info_line = line ctx, info_column = column ctx\<rparr>\<rparr>"

text \<open>
  What the \<open>try\<close> block builds from the parsed body \<open>data\<close>, once its first property
  read (\<open>data.tokensUsed\<close>) has not thrown.
\<close>

definition result_of_data ::
  "WeaveConfig \<Rightarrow> result_type \<Rightarrow> WeaveCodeContext \<Rightarrow> jsval \<Rightarrow> thrown + jsval WeaveAnalysisResult" where
  "result_of_data cfg ty ctx data =
     (case get_prop data ''tokensUsed'' of
        Inl e \<Rightarrow> Inl e
      | Inr tokensUsed \<Rightarrow>
     (case get_prop data ''cost'' of
        Inl e \<Rightarrow> Inl e
      | Inr cost \<Rightarrow>
     (case get_prop data ''content'' of
        Inl e \<Rightarrow> Inl e
      | Inr c \<Rightarrow>
     (case get_prop data ''provider'' of
        Inl e \<Rightarrow> Inl e
      | Inr prov \<Rightarrow>
     (case get_prop data ''model'' of
        Inl e \<Rightarrow> Inl e
      | Inr mdl \<Rightarrow>
         Inr \<lparr>rtype = ty,
              content = js_or c (JStr []),
              details = Some
                [(''tokensUsed'', js_or tokensUsed (JNum 0)),
                 (''cost'', js_or cost (JNum 0)),
                 (''provider'', js_or prov (JStr (provider_name (cfg_provider cfg)))),
                 (''model'', js_or mdl (JStr (model cfg)))],
              result_language = language ctx\<rparr>)))))"

text \<open>
  \<open>callWeaveAPI\<close> of the HTTP variant. Whatever the \<open>try\<close> block throws is logged and
  thrown again.
\<close>

definition callWeaveAPI :: "WeaveConfig \<Rightarrow> http_post \<Rightarrow> jsval transport" where
  "callWeaveAPI cfg post sysPrompt userPrompt ty ctx =
     (case post (make_request cfg sysPrompt userPrompt ctx) of
        Inl e \<Rightarrow> Inl e
      | Inr response \<Rightarrow>
          (case get_prop response ''data'' of
             Inl e \<Rightarrow> Inl e
           | Inr data \<Rightarrow> result_of_data cfg ty ctx data))"

section \<open>The host editor\<close>

record Range =
  range_start :: Position
  range_end :: Position

text \<open>\<open>Selection.isEmpty\<close>: the start and the end are the same position.\<close>

definition isEmpty :: "Range \<Rightarrow> bool" where
  "isEmpty r = (range_start r = range_end r)"

text \<open>
  A \<open>vscode.TextDocument\<close>, by the members the extension reads. \<open>getText\<close> is
  \<open>document.getText()\<close>, \<open>getTextIn\<close> is \<open>document.getText(range)\<close>; these and
  \<open>getWordRangeAtPosition\<close>, \<open>positionAt\<close> are the host's.
\<close>

record TextDocument =
  languageId :: string
  doc_fileName :: string
  getText :: string
  getTextIn :: "Range \<Rightarrow> string"
  getWordRangeAtPosition :: "Position \<Rightarrow> Range option"
  positionAt :: "nat \<Rightarrow> Position"

record TextEditor =
  document :: TextDocument
  selection :: Range

text \<open>
  What the host supplies to a command: \<open>vscode.window.activeTextEditor\<close>, and the
  button the user picks in the notification of \<open>generatePrompt\<close> (none when it is
  dismissed).
\<close>

record Host =
  activeTextEditor :: "TextEditor option"
  pickedAction :: "string option"

text \<open>
  A \<open>vscode.CancellationToken\<close>: the value of \<open>isCancellationRequested\<close> at the
  \<open>k\<close>-th read of one provider call, counted from 0.
\<close>

type_synonym CancellationToken = "nat \<Rightarrow> bool"

section \<open>The command handler\<close>

record StatusBarManager =
  statusBar_text :: string

definition setText :: "string \<Rightarrow> StatusBarManager \<Rightarrow> StatusBarManager" where
  "setText t sb = sb\<lparr>statusBar_text := t\<rparr>"

record CommandHandler =
  weaveAssistant :: WeaveAssistant
  statusBarManager :: StatusBarManager
  inlineHintsEnabled :: bool

definition new_CommandHandler :: "WeaveAssistant \<Rightarrow> StatusBarManager \<Rightarrow> CommandHandler" where
  "new_CommandHandler a sb =
     \<lparr>weaveAssistant = a, statusBarManager = sb, inlineHintsEnabled = True\<rparr>"

text \<open>\<open>content.replace(/\n/g, '<br>')\<close>\<close>

definition replace_newlines :: "string \<Rightarrow> string" where
  "replace_newlines s = concat (map (\<lambda>c. if c = CHR ''\<newline>'' then ''<br>'' else [c]) s)"

definition getWebviewContent :: "string \<Rightarrow> string \<Rightarrow> WebviewContent" where
  "getWebviewContent title_text content_text =
     \<lparr>page_title = title_text, page_content = replace_newlines content_text\<rparr>"

text \<open>
  \<open>showResult\<close>: the panel is created first; then \<open>getWebviewContent\<close> calls
  \<open>content.replace\<close>, which throws a \<open>TypeError\<close> when the content is not a
  string, before the page is assigned to the panel.
\<close>

fun showResult :: "string \<Rightarrow> jsval \<Rightarrow> event list \<times> thrown option" where
  "showResult title_text (JStr s) =
     ([CreateWebviewPanel title_text, SetWebviewHtml (getWebviewContent title_text s)], None)"
| "showResult title_text JUndefined =
     ([CreateWebviewPanel title_text],
      Some (Error (''Cannot read properties of undefined (reading '' @ quoted ''replace'' @ '')'')))"
| "showResult title_text JNull =
     ([CreateWebviewPanel title_text],
      Some (Error (''Cannot read properties of null (reading '' @ quoted ''replace'' @ '')'')))"
| "showResult title_text _ =
     ([CreateWebviewPanel title_text], Some (Error ''content.replace is not a function''))"

text \<open>\<open>error instanceof Error ? error.message : 'Unknown error'\<close>\<close>

fun error_text :: "thrown \<Rightarrow> string" where
  "error_text (Error m) = m"
| "error_text (NonError v) = ''Unknown error''"

definition context_of_selection :: "TextEditor \<Rightarrow> WeaveCodeContext" where
  "context_of_selection editor =
     \<lparr>code = getTextIn (document editor) (selection editor),
      language = languageId (document editor),
      fileName = doc_fileName (document editor),
      line = pos_line (range_start (selection editor)),
      column = character (range_start (selection editor))\<rparr>"

text \<open>
  Each command yields the handler after the call and what the call did, in order. The
  host's own calls (messages, panel, clipboard) are taken not to throw. Whatever the
  \<open>try\<close> block throws, the assistant's error or the \<open>TypeError\<close> of \<open>showResult\<close>,
  ends in the one \<open>catch\<close> of the command.
\<close>

definition cmd_generatePrompt ::
  "jsval transport \<Rightarrow> Host \<Rightarrow> CommandHandler \<Rightarrow> CommandHandler \<times> event list" where
  "cmd_generatePrompt api host h =
     (case activeTextEditor host of
        None \<Rightarrow> (h, [ShowErrorMessage ''No active editor''])
      | Some editor \<Rightarrow>
          if isEmpty (selection editor)
          then (h, [ShowErrorMessage ''Please select code to generate a prompt for''])
          else
            (case generatePrompt api (weaveAssistant h) (context_of_selection editor) of
               (evs, Inl e) \<Rightarrow>
                 (h, evs @ [ShowErrorMessage (''Failed to generate prompt: '' @ error_text e)])
             | (evs, Inr result) \<Rightarrow>
                 (case showResult ''Weave: Generated Prompt'' (content result) of
                    (panel_evs, Some e) \<Rightarrow>
                      (h, evs @ panel_evs @
                          [ShowErrorMessage (''Failed to generate prompt: '' @ error_text e)])
                  | (panel_evs, None) \<Rightarrow>
                      (h, evs @ panel_evs @
                          [ShowInformationMessage ''Prompt generated successfully''] @
                          (if pickedAction host = Some ''Copy to Clipboard''
                           then [ClipboardWriteText (content result),
                                 ShowInformationMessage ''Prompt copied to clipboard'']
                           else [])))))"

definition cmd_analyzeCode ::
  "jsval transport \<Rightarrow> Host \<Rightarrow> CommandHandler \<Rightarrow> CommandHandler \<times> event list" where
  "cmd_analyzeCode api host h =
     (case activeTextEditor host of
        None \<Rightarrow> (h, [ShowErrorMessage ''No active editor''])
      | Some editor \<Rightarrow>
          if isEmpty (selection editor)
          then (h, [ShowErrorMessage ''Please select code to analyze''])
          else
            (case analyzeCode api (weaveAssistant h) (context_of_selection editor) of
               (evs, Inl e) \<Rightarrow>
                 (h, evs @ [ShowErrorMessage (''Failed to analyze code: '' @ error_text e)])
             | (evs, Inr result) \<Rightarrow>
                 (case showResult ''Weave: Code Analysis'' (content result) of
                    (panel_evs, Some e) \<Rightarrow>
                      (h, evs @ panel_evs @
                          [ShowErrorMessage (''Failed to analyze code: '' @ error_text e)])
                  | (panel_evs, None) \<Rightarrow> (h, evs @ panel_evs))))"

definition cmd_suggestOptimization ::
  "jsval transport \<Rightarrow> Host \<Rightarrow> CommandHandler \<Rightarrow> CommandHandler \<times> event list" where
  "cmd_suggestOptimization api host h =
     (case activeTextEditor host of
        None \<Rightarrow> (h, [ShowErrorMessage ''No active editor''])
      | Some editor \<Rightarrow>
          if isEmpty (selection editor)
          then (h, [ShowErrorMessage ''Please select code to optimize''])
          else
            (case suggestOptimization api (weaveAssistant h) (context_of_selection editor) of
               (evs, Inl e) \<Rightarrow>
                 (h, evs @ [ShowErrorMessage (''Failed to get suggestions: '' @ error_text e)])
             | (evs, Inr result) \<Rightarrow>
                 (case showResult ''Weave: Optimization Suggestions'' (content result) of
                    (panel_evs, Some e) \<Rightarrow>
                      (h, evs @ panel_evs @
                          [ShowErrorMessage (''Failed to get suggestions: '' @ error_text e)])
                  | (panel_evs, None) \<Rightarrow> (h, evs @ panel_evs))))"

definition toggleInlineHints :: "CommandHandler \<Rightarrow> CommandHandler \<times> event list" where
  "toggleInlineHints h =
     (let enabled = \<not> inlineHintsEnabled h;
          status = (if enabled then ''enabled'' else ''disabled'')
      in (h\<lparr>inlineHintsEnabled := enabled,
            statusBarManager := setText (''Weave $(lightbulb) '' @ status) (statusBarManager h)\<rparr>,
          [ShowInformationMessage (''Inline hints '' @ status)]))"

section \<open>The completion provider\<close>

datatype CompletionTriggerKind = Invoke | TriggerCharacter | TriggerForIncompleteCompletions

record CompletionContext =
  triggerKind :: CompletionTriggerKind
  triggerCharacter :: "string option"

datatype CompletionItemKind = Text_kind

text \<open>
  The item \<open>new vscode.CompletionItem(completion, Text)\<close> after the four assignments;
  the constructor's label is overwritten.
\<close>

record CompletionItem =
  item_label :: string
  item_kind :: CompletionItemKind
  sortText :: string
  detail :: string
  documentation :: string

definition completion_item :: "string \<Rightarrow> CompletionItem" where
  "completion_item completion =
     \<lparr>item_label = ''Weave: '' @ take 50 completion @ ''...'',
      item_kind = Text_kind,
      sortText = ''0-weave'',
      detail = ''AI-powered completion by Weave'',
      documentation = ''Completion suggested by Weave AI Assistant''\<rparr>"

text \<open>\<open>range ? document.getText(range) : ''\<close>\<close>

definition word_at :: "TextDocument \<Rightarrow> Position \<Rightarrow> string" where
  "word_at doc position =
     (case getWordRangeAtPosition doc position of
        None \<Rightarrow> []
      | Some r \<Rightarrow> getTextIn doc r)"

text \<open>\<open>!context.triggerCharacter\<close>: absent, or the empty string.\<close>

definition no_trigger_character :: "CompletionContext \<Rightarrow> bool" where
  "no_trigger_character cc =
     (case triggerCharacter cc of None \<Rightarrow> True | Some s \<Rightarrow> s = [])"

text \<open>The code context the provider hands to \<open>generateCompletion\<close>.\<close>

definition context_at_cursor :: "TextDocument \<Rightarrow> Position \<Rightarrow> WeaveCodeContext" where
  "context_at_cursor doc position =
     \<lparr>code = getText doc,
      language = languageId doc,
      fileName = doc_fileName doc,
      line = pos_line position,
      column = character position\<rparr>"

text \<open>
  The lines after the last cancellation check: \<open>completion.substring(0, 50)\<close> throws
  a \<open>TypeError\<close> when the completion is not a string; the \<open>catch\<close> of the provider
  logs it and returns \<open>null\<close>.
\<close>

fun items_of_completion :: "jsval \<Rightarrow> CompletionItem list option" where
  "items_of_completion (JStr s) = Some [completion_item s]"
| "items_of_completion _ = None"

text \<open>
  \<open>provideCompletionItems\<close>: what the call did, and the list it resolves with
  (\<open>None\<close> is \<open>null\<close>). An error of the completion call is caught and logged.
\<close>

definition provideCompletionItems ::
  "jsval transport \<Rightarrow> WeaveAssistant \<Rightarrow> TextDocument \<Rightarrow> Position \<Rightarrow> CancellationToken
     \<Rightarrow> CompletionContext \<Rightarrow> event list \<times> CompletionItem list option" where
  "provideCompletionItems api a doc position token cc =
     (if token 0 then ([], None)
      else if length (word_at doc position) < 3 then ([], None)
      else if triggerKind cc = TriggerCharacter \<and> no_trigger_character cc then ([], None)
      else if token 1 then ([], None)
      else
        (case generateCompletion api a (context_at_cursor doc position) position of
           (evs, Inl e) \<Rightarrow> (evs, None)
         | (evs, Inr completion) \<Rightarrow>
             if token 2 then (evs, None)
             else (evs, items_of_completion completion)))"

section \<open>The code-lens provider\<close>

record CodeLens =
  lens_range :: Range
  lens_title :: string
  lens_command :: string

subsection \<open>The regular expression\<close>

text \<open>
  \<open>/^(async\s+)?(function|class)\s+(\w+)/gm\<close>. \<open>\s\<close> is white space (below 256:
  tab, line feed, vertical tab, form feed, carriage return, space, no-break space),
  \<open>\w\<close> is a letter, a digit or the underscore, and with the flag \<open>m\<close> the
  assertion \<open>^\<close> holds at index 0 and right after a line terminator (below 256:
  line feed and carriage return).
\<close>

definition is_space :: "char \<Rightarrow> bool" where
  "is_space c = (c \<in> set [CHR 0x09, CHR 0x0A, CHR 0x0B, CHR 0x0C, CHR 0x0D, CHR 0x20, CHR 0xA0])"

definition is_word_char :: "char \<Rightarrow> bool" where
  "is_word_char c =
     (c \<in> set ''abcdefghijklmnopqrstuvwxyzABCDEFGHIJKLMNOPQRSTUVWXYZ0123456789_'')"

definition is_line_terminator :: "char \<Rightarrow> bool" where
  "is_line_terminator c = (c = CHR 0x0A \<or> c = CHR 0x0D)"

text \<open>
  Each matcher takes the text from the current position on and yields the text after
  what it matched, or \<open>None\<close>. The quantifiers are greedy; giving characters back
  never helps here, since what follows \<open>\s+\<close> cannot start with white space and
  what follows \<open>\w+\<close> is the end of the pattern.
\<close>

definition match_literal :: "string \<Rightarrow> string \<Rightarrow> string option" where
  "match_literal lit s = (if prefix lit s then Some (drop (length lit) s) else None)"

definition match_spaces :: "string \<Rightarrow> string option" where
  "match_spaces s = (if takeWhile is_space s = [] then None else Some (dropWhile is_space s))"

definition match_word :: "string \<Rightarrow> string option" where
  "match_word s =
     (if takeWhile is_word_char s = [] then None else Some (dropWhile is_word_char s))"

text \<open>\<open>(function|class)\s+(\w+)\<close>\<close>

definition match_definition :: "string \<Rightarrow> string option" where
  "match_definition s =
     (case (case match_literal ''function'' s of
              Some r \<Rightarrow> Some r
            | None \<Rightarrow> match_literal ''class'' s) of
        None \<Rightarrow> None
      | Some r \<Rightarrow>
          (case match_spaces r of
             None \<Rightarrow> None
           | Some r' \<Rightarrow> match_word r'))"

text \<open>\<open>(async\s+)?\<close> and the rest: first with the group, then without it.\<close>

definition match_pattern :: "string \<Rightarrow> string option" where
  "match_pattern s =
     (case (case match_literal ''async'' s of
              None \<Rightarrow> None
            | Some r \<Rightarrow>
                (case match_spaces r of
                   None \<Rightarrow> None
                 | Some r' \<Rightarrow> match_definition r')) of
        Some rest \<Rightarrow> Some rest
      | None \<Rightarrow> match_definition s)"

definition at_line_start :: "string \<Rightarrow> nat \<Rightarrow> bool" where
  "at_line_start t i = (i = 0 \<or> is_line_terminator (t ! (i - 1)))"

text \<open>A match that starts at index \<open>i\<close> of \<open>t\<close>: the index where it ends.\<close>

definition match_at :: "string \<Rightarrow> nat \<Rightarrow> nat option" where
  "match_at t i =
     (if at_line_start t i
      then (case match_pattern (drop i t) of
              None \<Rightarrow> None
            | Some rest \<Rightarrow> Some (length t - length rest))
      else None)"

text \<open>
  A match is never empty and ends inside the text, so the loop over \<open>exec\<close> below
  moves forward.
\<close>

lemma match_literal_length: "match_literal lit s = Some r \<Longrightarrow> length r + length lit = length s"
  by (auto simp: match_literal_def prefix_def split: if_splits)

lemma match_spaces_shorter: "match_spaces s = Some r \<Longrightarrow> length r < length s"
  unfolding match_spaces_def
  by (cases s) (auto split: if_splits intro: le_imp_less_Suc length_dropWhile_le)

lemma match_word_shorter: "match_word s = Some r \<Longrightarrow> length r < length s"
  unfolding match_word_def
  by (cases s) (auto split: if_splits intro: le_imp_less_Suc length_dropWhile_le)

lemma match_definition_shorter: "match_definition s = Some r \<Longrightarrow> length r < length s"
  unfolding match_definition_def
  by (auto split: option.splits
        dest!: match_literal_length match_spaces_shorter match_word_shorter)

lemma match_pattern_shorter: "match_pattern s = Some r \<Longrightarrow> length r < length s"
  unfolding match_pattern_def
  by (auto split: option.splits
        dest!: match_literal_length match_spaces_shorter match_definition_shorter)

lemma match_at_bounds: "match_at t i = Some e \<Longrightarrow> i < e \<and> e \<le> length t"
  unfolding match_at_def
  by (auto split: if_splits option.splits dest!: match_pattern_shorter)

text \<open>
  \<open>functionPattern.exec(t)\<close> with \<open>lastIndex = i\<close>: the leftmost match that starts
  at \<open>i\<close> or later, as \<open>(match.index, the new lastIndex)\<close>; \<open>None\<close> is \<open>null\<close>.
\<close>

function exec_from :: "string \<Rightarrow> nat \<Rightarrow> (nat \<times> nat) option" where
  "exec_from t i =
     (if length t < i then None
      else (case match_at t i of
              Some e \<Rightarrow> Some (i, e)
            | None \<Rightarrow> exec_from t (Suc i)))"
  by pat_completeness auto
termination
  by (relation "measure (\<lambda>(t, i). Suc (length t) - i)") auto

declare exec_from.simps [simp del]

lemma exec_from_bounds: "exec_from t i = Some (j, e) \<Longrightarrow> i \<le> j \<and> j < e \<and> e \<le> length t"
proof (induction t i rule: exec_from.induct)
  case (1 t i)
  show ?case
  proof (cases "match_at t i")
    case None
    with 1 show ?thesis
      by (subst (asm) (2) exec_from.simps) (auto split: if_splits)
  next
    case (Some e')
    with 1 show ?thesis
      by (subst (asm) (2) exec_from.simps) (auto split: if_splits dest: match_at_bounds)
  qed
qed

text \<open>
  The indices of all matches, as the loop \<open>while ((match = functionPattern.exec(t)) !== null)\<close>
  meets them, starting with \<open>lastIndex\<close>.
\<close>

function pattern_matches :: "string \<Rightarrow> nat \<Rightarrow> nat list" where
  "pattern_matches t lastIndex =
     (case exec_from t lastIndex of
        None \<Rightarrow> []
      | Some (i, e) \<Rightarrow> i # pattern_matches t e)"
  by pat_completeness auto
termination
  by (relation "measure (\<lambda>(t, i). Suc (length t) - i)") (auto dest: exec_from_bounds)

declare pattern_matches.simps [simp del]

subsection \<open>The provider\<close>

definition analyze_lens :: CodeLens where
  "analyze_lens =
     \<lparr>lens_range = \<lparr>range_start = \<lparr>pos_line = 0, character = 0\<rparr>,
                     range_end = \<lparr>pos_line = 0, character = 0\<rparr>\<rparr>,
      lens_title = ''$(lightbulb) Weave: Analyze'',
      lens_command = ''weave.analyzeCode''\<rparr>"

text \<open>\<open>position.translate(lineDelta, characterDelta)\<close>, for deltas that are not negative.\<close>

definition translate :: "nat \<Rightarrow> nat \<Rightarrow> Position \<Rightarrow> Position" where
  "translate lineDelta characterDelta p =
     \<lparr>pos_line = pos_line p + lineDelta, character = character p + characterDelta\<rparr>"

definition optimize_lens :: "TextDocument \<Rightarrow> nat \<Rightarrow> CodeLens" where
  "optimize_lens doc i =
     \<lparr>lens_range = \<lparr>range_start = positionAt doc i,
                     range_end = translate 0 5 (positionAt doc i)\<rparr>,
      lens_title = ''$(wand) Weave: Optimize'',
      lens_command = ''weave.suggestOptimization''\<rparr>"

text \<open>
  The \<open>while\<close> loop of \<open>provideCodeLenses\<close>: \<open>k\<close> counts the reads of the token,
  \<open>lenses\<close> is the array built so far.
\<close>

function lens_loop ::
  "TextDocument \<Rightarrow> CancellationToken \<Rightarrow> nat \<Rightarrow> nat \<Rightarrow> CodeLens list \<Rightarrow> CodeLens list option" where
  "lens_loop doc token lastIndex k lenses =
     (case exec_from (getText doc) lastIndex of
        None \<Rightarrow> Some lenses
      | Some (i, e) \<Rightarrow>
          if token k then None
          else lens_loop doc token e (Suc k) (lenses @ [optimize_lens doc i]))"
  by pat_completeness auto
termination
  by (relation "measure (\<lambda>(doc, token, i, k, ls). Suc (length (getText doc)) - i)")
     (auto dest: exec_from_bounds)

declare lens_loop.simps [simp del]

definition provideCodeLenses :: "TextDocument \<Rightarrow> CancellationToken \<Rightarrow> CodeLens list option" where
  "provideCodeLenses doc token =
     (if token 0 then None else lens_loop doc token 0 1 [analyze_lens])"

subsection \<open>The pattern as the specification words it\<close>

text \<open>
  The specification describes the scan as matching \<open>(async )?(function|class) name\<close>
  occurrences in the document text, with no condition on where an occurrence starts.
  \<open>spec_occurrences\<close> follows these words: the same matcher and the same loop,
  without the assertion \<open>^\<close>. It is used only to compare with \<open>pattern_matches\<close>.
\<close>

definition spec_match_at :: "string \<Rightarrow> nat \<Rightarrow> nat option" where
  "spec_match_at t i =
     (case match_pattern (drop i t) of
        None \<Rightarrow> None
      | Some rest \<Rightarrow> Some (length t - length rest))"

lemma spec_match_at_bounds: "spec_match_at t i = Some e \<Longrightarrow> i < e \<and> e \<le> length t"
  unfolding spec_match_at_def
  by (auto split: option.splits dest!: match_pattern_shorter)

function spec_exec_from :: "string \<Rightarrow> nat \<Rightarrow> (nat \<times> nat) option" where
  "spec_exec_from t i =
     (if length t < i then None
      else (case spec_match_at t i of
              Some e \<Rightarrow> Some (i, e)
            | None \<Rightarrow> spec_exec_from t (Suc i)))"
  by pat_completeness auto
termination
  by (relation "measure (\<lambda>(t, i). Suc (length t) - i)") auto

declare spec_exec_from.simps [simp del]

lemma spec_exec_from_bounds:
  "spec_exec_from t i = Some (j, e) \<Longrightarrow> i \<le> j \<and> j < e \<and> e \<le> length t"
proof (induction t i rule: spec_exec_from.induct)
  case (1 t i)
  show ?case
  proof (cases "spec_match_at t i")
    case None
    with 1 show ?thesis
      by (subst (asm) (2) spec_exec_from.simps) (auto split: if_splits)
  next
    case (Some e')
    with 1 show ?thesis
      by (subst (asm) (2) spec_exec_from.simps)
         (auto split: if_splits dest: spec_match_at_bounds)
  qed
qed

function spec_occurrences :: "string \<Rightarrow> nat \<Rightarrow> nat list" where
  "spec_occurrences t lastIndex =
     (case spec_exec_from t lastIndex of
        None \<Rightarrow> []
      | Some (i, e) \<Rightarrow> i # spec_occurrences t e)"
  by pat_completeness auto
termination
  by (relation "measure (\<lambda>(t, i). Suc (length t) - i)") (auto dest: spec_exec_from_bounds)

declare spec_occurrences.simps [simp del]

section \<open>Vocabulary of the statements\<close>

text \<open>
  A fenced block as the templates write it: the opening fence with the language tag,
  the body on lines of its own, the closing fence.
\<close>

definition fenced :: "string \<Rightarrow> string \<Rightarrow> string" where
  "fenced lang body = ''```'' @ lang @ ''\<newline>'' @ body @ ''\<newline>```''"

text \<open>The values on which a property read throws.\<close>

definition nullish :: "jsval \<Rightarrow> bool" where
  "nullish v = (v = JUndefined \<or> v = JNull)"

text \<open>The error of \<open>ensureInitialized\<close>.\<close>

definition not_initialized :: thrown where
  "not_initialized = Error ''WeaveAssistant not initialized''"

text \<open>The handler after one run of the toggle command.\<close>

definition toggled :: "CommandHandler \<Rightarrow> CommandHandler" where
  "toggled h = fst (toggleInlineHints h)"

text \<open>\<open>typeof v === 'string'\<close>\<close>

fun is_string :: "jsval \<Rightarrow> bool" where
  "is_string (JStr s) = True"
| "is_string _ = False"

section \<open>Inputs used in the examples\<close>

definition example_context :: WeaveCodeContext where
  "example_context =
     \<lparr>code = ''zzz'', language = ''ts'', fileName = ''a.ts'', line = 0, column = 0\<rparr>"

definition document_start :: Position where
  "document_start = \<lparr>pos_line = 0, character = 0\<rparr>"

definition example_config :: WeaveConfig where
  "example_config =
     \<lparr>apiKey = ''key'', cfg_provider = Openai, model = ''gpt-4'', temperature = 7 / 10,
      maxTokens = 1000\<rparr>"

definition local_config :: WeaveConfig where
  "local_config =
     \<lparr>apiKey = [], cfg_provider = Local, model = ''llama'', temperature = 7 / 10,
      maxTokens = 1000\<rparr>"

definition keyless_config :: WeaveConfig where
  "keyless_config =
     \<lparr>apiKey = [], cfg_provider = Openai, model = ''gpt-4'', temperature = 7 / 10,
      maxTokens = 1000\<rparr>"

definition example_selection_context :: WeaveCodeContext where
  "example_selection_context =
     \<lparr>code = ''let x = 1;'', language = ''ts'', fileName = ''a.ts'', line = 0, column = 0\<rparr>"

text \<open>An endpoint that answers with the JSON body \<open>{}\<close>.\<close>

definition post_empty_body :: http_post where
  "post_empty_body req = Inr (JObj [(''data'', JObj [])])"

text \<open>A client that rejects, as for a status that is not a success.\<close>

definition post_rejects :: http_post where
  "post_rejects req = Inl (Error ''Request failed with status code 500'')"

text \<open>A response object without a body.\<close>

definition post_no_body :: http_post where
  "post_no_body req = Inr (JObj [])"

text \<open>An endpoint that answers with \<open>{"content": 5}\<close>.\<close>

definition post_number_content :: http_post where
  "post_number_content req = Inr (JObj [(''data'', JObj [(''content'', JNum 5)])])"

text \<open>An endpoint that answers with \<open>{"content": "looks fine"}\<close>.\<close>

definition post_content :: http_post where
  "post_content req = Inr (JObj [(''data'', JObj [(''content'', JStr ''looks fine'')])])"

text \<open>
  A one-line TypeScript document whose only function is exported; the word under the
  cursor is \<open>function\<close>.
\<close>

definition example_document :: TextDocument where
  "example_document =
     \<lparr>languageId = ''typescript'',
      doc_fileName = ''a.ts'',
      getText = ''export function f'',
      getTextIn = (\<lambda>r. ''function''),
      getWordRangeAtPosition =
        (\<lambda>p. Some \<lparr>range_start = \<lparr>pos_line = 0, character = 7\<rparr>,
                     range_end = \<lparr>pos_line = 0, character = 15\<rparr>\<rparr>),
      positionAt = (\<lambda>i. \<lparr>pos_line = 0, character = i\<rparr>)\<rparr>"

text \<open>A document with three definitions, two of them at the start of a line.\<close>

definition three_line_document :: TextDocument where
  "three_line_document =
     example_document
       \<lparr>getText := ''class A {}\<newline>export function f\<newline>async function g''\<rparr>"

text \<open>A document in which the word under the cursor is \<open>ab\<close>.\<close>

definition short_word_document :: TextDocument where
  "short_word_document = example_document\<lparr>getTextIn := (\<lambda>r. ''ab'')\<rparr>"

text \<open>An editor with the word \<open>function\<close> selected, and one with a bare cursor.\<close>

definition example_editor :: TextEditor where
  "example_editor =
     \<lparr>document = example_document,
      selection = \<lparr>range_start = \<lparr>pos_line = 0, character = 7\<rparr>,
                   range_end = \<lparr>pos_line = 0, character = 15\<rparr>\<rparr>\<rparr>"

definition cursor_editor :: TextEditor where
  "cursor_editor =
     \<lparr>document = example_document,
      selection = \<lparr>range_start = \<lparr>pos_line = 0, character = 7\<rparr>,
                   range_end = \<lparr>pos_line = 0, character = 7\<rparr>\<rparr>\<rparr>"

definition example_handler :: CommandHandler where
  "example_handler =
     \<lparr>weaveAssistant = \<lparr>config = example_config, isInitialized = True\<rparr>,
      statusBarManager = \<lparr>statusBar_text = ''$(check) Weave Ready''\<rparr>,
      inlineHintsEnabled = True\<rparr>"

definition invoked :: CompletionContext where
  "invoked = \<lparr>triggerKind = Invoke, triggerCharacter = None\<rparr>"

definition cursor_position :: Position where
  "cursor_position = \<lparr>pos_line = 0, character = 10\<rparr>"

text \<open>Tokens: never cancelled; cancelled from the third read on; from the second read on.\<close>

definition never_cancelled :: CancellationToken where
  "never_cancelled k = False"

definition cancelled_during_call :: CancellationToken where
  "cancelled_during_call k = (2 \<le> k)"

definition cancelled_during_scan :: CancellationToken where
  "cancelled_during_scan k = (1 \<le> k)"

text \<open>A transport that rejects with an \<open>Error\<close>, and one that rejects with a string.\<close>

definition transport_rejects :: "jsval transport" where
  "transport_rejects sp up ty ctx = Inl (Error ''Request failed with status code 500'')"

definition transport_throws_string :: "jsval transport" where
  "transport_throws_string sp up ty ctx = Inl (NonError (JStr ''timeout''))"

section \<open>Statements about the composer\<close>

text \<open>
  \<open>split\<close> and \<open>join\<close>: joining the pieces gives the string back, no piece holds a
  line feed, and the first \<open>n\<close> lines joined are an initial segment of all lines
  joined.
\<close>

lemma join_split_newline: "join_newline (split_newline s) = s"
proof (induction s)
  case Nil
  show ?case by simp
next
  case (Cons c s)
  show ?case
  proof (cases "split_newline s")
    case Nil
    with Cons show ?thesis by simp
  next
    case (Cons l ls)
    with Cons.IH show ?thesis by (cases ls) auto
  qed
qed

lemma split_newline_pieces: "l \<in> set (split_newline s) \<Longrightarrow> CHR ''\<newline>'' \<notin> set l"
  by (induction s arbitrary: l) (auto split: if_splits list.splits)

lemma join_newline_take_prefix: "prefix (join_newline (take n ls)) (join_newline ls)"
proof (induction ls arbitrary: n rule: join_newline.induct)
  case 1
  show ?case by simp
next
  case (2 l)
  show ?case by (cases n) simp_all
next
  case (3 l l' ls)
  show ?case
  proof (cases n)
    case 0
    then show ?thesis by simp
  next
    case (Suc m)
    show ?thesis
    proof (cases m)
      case 0
      with Suc show ?thesis by simp
    next
      case (Suc k)
      with 3[of m] \<open>n = Suc m\<close> show ?thesis by simp
    qed
  qed
qed

lemma split_newline_not_Nil: "split_newline s \<noteq> []"
  by (induction s) (auto split: list.splits)

lemma split_join_newline:
  "ls \<noteq> [] \<Longrightarrow> \<forall>l \<in> set ls. CHR ''\<newline>'' \<notin> set l \<Longrightarrow>
   split_newline (join_newline ls) = ls"
proof (induction ls rule: join_newline.induct)
  case 1
  then show ?case by simp
next
  case (2 l)
  then show ?case by (induction l) (auto split: list.splits)
next
  case (3 l l' ls)
  then show ?case by (induction l) (auto split: list.splits)
qed

lemma completion_prompt_fence:
  "sublist (fenced (language ctx)
              (join_newline (take (pos_line position) (split_newline (code ctx))) @
               ''\<newline>|CURSOR_HERE|''))
     (generateCompletion_userPrompt ctx position)"
  unfolding generateCompletion_userPrompt_def previousLines_def fenced_def sublist_def
  by (rule exI[of _ "''Complete this '' @ language ctx @
     '' code based on context:\<newline>\<newline>''"]) simp

text \<open>
  C1, as the code has it. The user prompts of generate-prompt, analyze and
  suggest-optimization contain the whole input code, verbatim, in a fence opened with
  three backquotes and the language tag. The user prompt of complete contains, in such
  a fence, the first \<open>position.line\<close> lines of the code, joined by line feeds and
  followed by the cursor marker, not the whole code; that text is an initial segment
  of the code. For a code made of the lines \<open>ls\<close> these are the first \<open>position.line\<close>
  of \<open>ls\<close>.
\<close>

theorem compose_embeds_fenced_code:
  "sublist (fenced (language ctx) (code ctx)) (generatePrompt_userPrompt ctx) \<and>
   sublist (fenced (language ctx) (code ctx)) (analyzeCode_userPrompt ctx) \<and>
   sublist (fenced (language ctx) (code ctx)) (suggestOptimization_userPrompt ctx) \<and>
   sublist (fenced (language ctx)
              (join_newline (take (pos_line position) (split_newline (code ctx))) @
               ''\<newline>|CURSOR_HERE|''))
     (generateCompletion_userPrompt ctx position) \<and>
   prefix (join_newline (take (pos_line position) (split_newline (code ctx)))) (code ctx) \<and>
   (ls \<noteq> [] \<and> (\<forall>l \<in> set ls. CHR ''\<newline>'' \<notin> set l) \<and> code ctx = join_newline ls \<longrightarrow>
      sublist (fenced (language ctx)
                 (join_newline (take (pos_line position) ls) @ ''\<newline>|CURSOR_HERE|''))
        (generateCompletion_userPrompt ctx position))"
proof (intro conjI impI)
  show "sublist (fenced (language ctx) (code ctx)) (generatePrompt_userPrompt ctx)"
    unfolding generatePrompt_userPrompt_def fenced_def sublist_def
    by (rule exI[of _ "''Analyze this '' @ language ctx @
     '' code and generate an optimized prompt that describes it:\<newline>\<newline>''"]) simp
  show "sublist (fenced (language ctx) (code ctx)) (analyzeCode_userPrompt ctx)"
    unfolding analyzeCode_userPrompt_def fenced_def sublist_def
    by (rule exI[of _ "''Analyze this '' @ language ctx @ '' code:\<newline>\<newline>''"]) simp
  show "sublist (fenced (language ctx) (code ctx)) (suggestOptimization_userPrompt ctx)"
    unfolding suggestOptimization_userPrompt_def fenced_def sublist_def
    by (rule exI[of _ "''Suggest optimizations for this '' @ language ctx @
     '' code:\<newline>\<newline>''"]) simp
  show "sublist (fenced (language ctx)
              (join_newline (take (pos_line position) (split_newline (code ctx))) @
               ''\<newline>|CURSOR_HERE|''))
     (generateCompletion_userPrompt ctx position)"
    by (rule completion_prompt_fence)
  show "prefix (join_newline (take (pos_line position) (split_newline (code ctx)))) (code ctx)"
    using join_newline_take_prefix[of "pos_line position" "split_newline (code ctx)"]
    by (simp add: join_split_newline)
next
  assume "ls \<noteq> [] \<and> (\<forall>l \<in> set ls. CHR ''\<newline>'' \<notin> set l) \<and> code ctx = join_newline ls"
  then have "split_newline (code ctx) = ls"
    by (simp add: split_join_newline)
  with completion_prompt_fence[of ctx position]
  show "sublist (fenced (language ctx)
                 (join_newline (take (pos_line position) ls) @ ''\<newline>|CURSOR_HERE|''))
        (generateCompletion_userPrompt ctx position)"
    by simp
qed

text \<open>
  With the cursor on line 2 of the three lines \<open>a\<close>, \<open>b\<close>, \<open>c\<close> the fence holds
  \<open>a\<close> and \<open>b\<close>.
\<close>

theorem compose_embeds_fenced_code_witness:
  "sublist ''```ts\<newline>a\<newline>b\<newline>|CURSOR_HERE|\<newline>```''
     (generateCompletion_userPrompt
        \<lparr>code = ''a\<newline>b\<newline>c'', language = ''ts'', fileName = ''a.ts'', line = 2, column = 0\<rparr>
        \<lparr>pos_line = 2, character = 0\<rparr>) \<and>
   generateCompletion_userPrompt
        \<lparr>code = ''a\<newline>b\<newline>c'', language = ''ts'', fileName = ''a.ts'', line = 2, column = 0\<rparr>
        \<lparr>pos_line = 2, character = 0\<rparr> =
     ''Complete this ts code based on context:\<newline>\<newline>```ts\<newline>a\<newline>b\<newline>|CURSOR_HERE|\<newline>```\<newline>\<newline>'' @
     ''Provide a natural completion that fits the code style and logic.''"
proof (intro conjI)
  from compose_embeds_fenced_code[where ls = "[''a'', ''b'', ''c'']"
      and ctx = "\<lparr>code = ''a\<newline>b\<newline>c'', language = ''ts'', fileName = ''a.ts'',
                  line = 2, column = 0\<rparr>"
      and position = "\<lparr>pos_line = 2, character = 0\<rparr>"]
  show "sublist ''```ts\<newline>a\<newline>b\<newline>|CURSOR_HERE|\<newline>```''
     (generateCompletion_userPrompt
        \<lparr>code = ''a\<newline>b\<newline>c'', language = ''ts'', fileName = ''a.ts'', line = 2, column = 0\<rparr>
        \<lparr>pos_line = 2, character = 0\<rparr>)"
    by (simp add: fenced_def numeral_2_eq_2)
  show "generateCompletion_userPrompt
        \<lparr>code = ''a\<newline>b\<newline>c'', language = ''ts'', fileName = ''a.ts'', line = 2, column = 0\<rparr>
        \<lparr>pos_line = 2, character = 0\<rparr> =
     ''Complete this ts code based on context:\<newline>\<newline>```ts\<newline>a\<newline>b\<newline>|CURSOR_HERE|\<newline>```\<newline>\<newline>'' @
     ''Provide a natural completion that fits the code style and logic.''"
    by (simp add: generateCompletion_userPrompt_def previousLines_def numeral_2_eq_2)
qed

text \<open>
  C1 as stated fails for complete: with the cursor on line 0 of the one-line code
  \<open>zzz\<close>, no line precedes the cursor and the prompt does not contain the code.
\<close>

theorem completion_prompt_lacks_code_counterexample:
  "\<not> sublist (code example_context)
       (generateCompletion_userPrompt example_context document_start)"
  by (simp add: example_context_def document_start_def generateCompletion_userPrompt_def
        previousLines_def sublist_code del: sublist_Nil_left sublist_Cons_Nil)

text \<open>
  C2. The user prompt of complete is a function of the language tag and of the lines
  before the cursor line alone: two contexts with the same language whose codes agree
  on the lines before the cursor line get the same prompt, whatever stands on the
  cursor line and after it.
\<close>

theorem completion_prompt_ignores_later_lines:
  assumes "language ctx' = language ctx"
    and "take (pos_line position) (split_newline (code ctx')) =
         take (pos_line position) (split_newline (code ctx))"
  shows "generateCompletion_userPrompt ctx' position = generateCompletion_userPrompt ctx position"
  using assms by (simp add: generateCompletion_userPrompt_def previousLines_def)

theorem completion_prompt_ignores_later_lines_witness:
  "generateCompletion_userPrompt
     \<lparr>code = ''a\<newline>zzz'', language = ''ts'', fileName = ''a.ts'', line = 1, column = 0\<rparr>
     \<lparr>pos_line = 1, character = 0\<rparr> =
   generateCompletion_userPrompt
     \<lparr>code = ''a\<newline>b\<newline>c'', language = ''ts'', fileName = ''a.ts'', line = 1, column = 0\<rparr>
     \<lparr>pos_line = 1, character = 0\<rparr>"
  by (rule completion_prompt_ignores_later_lines) simp_all

text \<open>
  The same in terms of lines: replacing the lines from the cursor line on by any other
  lines leaves the prompt as it is.
\<close>

lemma completion_prompt_lines:
  assumes "\<forall>l \<in> set (before @ after @ after'). CHR ''\<newline>'' \<notin> set l"
    and "language ctx' = language ctx"
    and "code ctx = join_newline (before @ after)"
    and "code ctx' = join_newline (before @ after')"
    and "pos_line position = length before"
  shows "generateCompletion_userPrompt ctx' position = generateCompletion_userPrompt ctx position"
proof (cases "before = []")
  case True
  with assms show ?thesis
    by (simp add: generateCompletion_userPrompt_def previousLines_def)
next
  case False
  with assms have "split_newline (code ctx) = before @ after"
    and "split_newline (code ctx') = before @ after'"
    by (auto intro!: split_join_newline)
  with assms show ?thesis
    by (simp add: generateCompletion_userPrompt_def previousLines_def)
qed

section \<open>Statements about the transport\<close>

lemma get_prop_fails_iff: "isl (get_prop v p) = nullish v"
  by (cases v) (simp_all add: nullish_def)

lemma result_of_data_nullish: "nullish d \<Longrightarrow> isl (result_of_data cfg ty ctx d)"
  by (auto simp: nullish_def result_of_data_def)

lemma result_of_data_ok:
  assumes "\<not> nullish d" and "get_prop d ''content'' = Inr c"
  shows "\<exists>r. result_of_data cfg ty ctx d = Inr r \<and> content r = js_or c (JStr []) \<and>
             rtype r = ty \<and> result_language r = language ctx"
  using assms by (cases d) (simp_all add: nullish_def result_of_data_def)

text \<open>
  C3, as the code has it. The call fails with the client's own error whenever the
  HTTP client rejects (as it does for a failed network call or a status that is not a
  success), and with a \<open>TypeError\<close> when the response or its body is \<open>undefined\<close> or
  \<open>null\<close>. For every other body the call succeeds: the content of the result is the
  body's \<open>content\<close> property when that is truthy and the empty string otherwise, so a
  body without a \<open>content\<close> field yields a successful result with empty content.
\<close>

theorem callWeaveAPI_failures:
  "(post (make_request cfg sp up ctx) = Inl e \<longrightarrow>
      callWeaveAPI cfg post sp up ty ctx = Inl e) \<and>
   (post (make_request cfg sp up ctx) = Inr response \<and> nullish response \<longrightarrow>
      isl (callWeaveAPI cfg post sp up ty ctx)) \<and>
   (post (make_request cfg sp up ctx) = Inr response \<and>
    get_prop response ''data'' = Inr data \<and> nullish data \<longrightarrow>
      isl (callWeaveAPI cfg post sp up ty ctx)) \<and>
   (post (make_request cfg sp up ctx) = Inr response \<and>
    get_prop response ''data'' = Inr data \<and> \<not> nullish data \<and>
    get_prop data ''content'' = Inr c \<longrightarrow>
      (\<exists>r. callWeaveAPI cfg post sp up ty ctx = Inr r \<and>
           content r = js_or c (JStr []) \<and> rtype r = ty \<and>
           result_language r = language ctx))"
proof (intro conjI impI)
  assume "post (make_request cfg sp up ctx) = Inl e"
  then show "callWeaveAPI cfg post sp up ty ctx = Inl e"
    by (simp add: callWeaveAPI_def)
next
  assume "post (make_request cfg sp up ctx) = Inr response \<and> nullish response"
  then show "isl (callWeaveAPI cfg post sp up ty ctx)"
    using get_prop_fails_iff[of response "''data''"]
    by (auto simp: callWeaveAPI_def split: sum.splits)
next
  assume "post (make_request cfg sp up ctx) = Inr response \<and>
    get_prop response ''data'' = Inr data \<and> nullish data"
  then show "isl (callWeaveAPI cfg post sp up ty ctx)"
    by (simp add: callWeaveAPI_def result_of_data_nullish)
next
  assume "post (make_request cfg sp up ctx) = Inr response \<and>
    get_prop response ''data'' = Inr data \<and> \<not> nullish data \<and>
    get_prop data ''content'' = Inr c"
  then show "\<exists>r. callWeaveAPI cfg post sp up ty ctx = Inr r \<and>
           content r = js_or c (JStr []) \<and> rtype r = ty \<and>
           result_language r = language ctx"
    using result_of_data_ok[of data c cfg ty ctx] by (simp add: callWeaveAPI_def)
qed

theorem callWeaveAPI_failures_witness:
  "callWeaveAPI example_config post_rejects [] [] Analysis example_selection_context =
     Inl (Error ''Request failed with status code 500'') \<and>
   isl (callWeaveAPI example_config post_no_body [] [] Analysis example_selection_context) \<and>
   (\<exists>r. callWeaveAPI example_config post_content [] [] Analysis example_selection_context = Inr r \<and>
        content r = JStr ''looks fine'' \<and> rtype r = Analysis \<and> result_language r = ''ts'')"
proof (intro conjI)
  show "callWeaveAPI example_config post_rejects [] [] Analysis example_selection_context =
     Inl (Error ''Request failed with status code 500'')"
    using callWeaveAPI_failures[where post = post_rejects and cfg = example_config and sp = "[]"
        and up = "[]" and ctx = example_selection_context and ty = Analysis
        and e = "Error ''Request failed with status code 500''"]
    by (simp add: post_rejects_def)
  show "isl (callWeaveAPI example_config post_no_body [] [] Analysis example_selection_context)"
    using callWeaveAPI_failures[where post = post_no_body and cfg = example_config and sp = "[]"
        and up = "[]" and ctx = example_selection_context and ty = Analysis
        and response = "JObj []" and data = JUndefined]
    by (simp add: post_no_body_def nullish_def)
  show "\<exists>r. callWeaveAPI example_config post_content [] [] Analysis example_selection_context = Inr r \<and>
        content r = JStr ''looks fine'' \<and> rtype r = Analysis \<and> result_language r = ''ts''"
    using callWeaveAPI_failures[where post = post_content and cfg = example_config and sp = "[]"
        and up = "[]" and ctx = example_selection_context and ty = Analysis
        and response = "JObj [(''data'', JObj [(''content'', JStr ''looks fine'')])]"
        and data = "JObj [(''content'', JStr ''looks fine'')]" and c = "JStr ''looks fine''"]
    by (simp add: post_content_def nullish_def js_or_def example_selection_context_def)
qed

text \<open>
  C3 as stated fails: for the body \<open>{}\<close>, which lacks a \<open>content\<close> field, the call
  does not fail but resolves with a result whose content is the empty string.
\<close>

theorem callWeaveAPI_missing_content_counterexample:
  "callWeaveAPI example_config post_empty_body analyzeCode_systemPrompt
     (analyzeCode_userPrompt example_selection_context) Analysis example_selection_context =
   Inr \<lparr>rtype = Analysis, content = JStr [],
        details = Some [(''tokensUsed'', JNum 0), (''cost'', JNum 0),
                        (''provider'', JStr ''openai''), (''model'', JStr ''gpt-4'')],
        result_language = ''ts''\<rparr>"
  by (simp add: callWeaveAPI_def post_empty_body_def result_of_data_def js_or_def
        example_config_def example_selection_context_def)

section \<open>Statements about the assistant's life cycle\<close>

text \<open>
  C10. After \<open>dispose\<close> each of the five operations throws the error
  \<open>WeaveAssistant not initialized\<close> and does not reach the transport. An
  \<open>initialize\<close> that throws leaves the assistant disposed; after an \<open>initialize\<close>
  that succeeds each operation calls the transport once with its prompts and hands on
  what the transport yields.
\<close>

theorem dispose_uninitializes:
  "generatePrompt api (dispose a) ctx = ([], Inl not_initialized) \<and>
   analyzeCode api (dispose a) ctx = ([], Inl not_initialized) \<and>
   suggestOptimization api (dispose a) ctx = ([], Inl not_initialized) \<and>
   generateCompletion api (dispose a) ctx position = ([], Inl not_initialized) \<and>
   generateDocumentation api (dispose a) ctx = ([], Inl not_initialized) \<and>
   (snd (initialize (dispose a)) \<noteq> None \<longrightarrow> fst (initialize (dispose a)) = dispose a) \<and>
   (snd (initialize (dispose a)) = None \<longrightarrow>
      generatePrompt api (fst (initialize (dispose a))) ctx =
        ([CallWeaveAPI generatePrompt_systemPrompt (generatePrompt_userPrompt ctx) Analysis ctx],
         api generatePrompt_systemPrompt (generatePrompt_userPrompt ctx) Analysis ctx) \<and>
      analyzeCode api (fst (initialize (dispose a))) ctx =
        ([CallWeaveAPI analyzeCode_systemPrompt (analyzeCode_userPrompt ctx) Analysis ctx],
         api analyzeCode_systemPrompt (analyzeCode_userPrompt ctx) Analysis ctx) \<and>
      suggestOptimization api (fst (initialize (dispose a))) ctx =
        ([CallWeaveAPI suggestOptimization_systemPrompt (suggestOptimization_userPrompt ctx)
            Suggestion ctx],
         api suggestOptimization_systemPrompt (suggestOptimization_userPrompt ctx)
            Suggestion ctx) \<and>
      fst (generateCompletion api (fst (initialize (dispose a))) ctx position) =
        [CallWeaveAPI generateCompletion_systemPrompt
           (generateCompletion_userPrompt ctx position) Completion ctx] \<and>
      snd (generateCompletion api (fst (initialize (dispose a))) ctx position) =
        map_sum id content
          (api generateCompletion_systemPrompt (generateCompletion_userPrompt ctx position)
             Completion ctx) \<and>
      fst (generateDocumentation api (fst (initialize (dispose a))) ctx) =
        [CallWeaveAPI generateDocumentation_systemPrompt
           (generateDocumentation_userPrompt ctx) Analysis ctx] \<and>
      snd (generateDocumentation api (fst (initialize (dispose a))) ctx) =
        map_sum id content
          (api generateDocumentation_systemPrompt (generateDocumentation_userPrompt ctx)
             Analysis ctx))"
  by (auto simp: generatePrompt_def analyzeCode_def suggestOptimization_def
      generateCompletion_def generateDocumentation_def guarded_call_def ensureInitialized_def
      dispose_def initialize_def not_initialized_def split: sum.splits if_splits)

theorem dispose_uninitializes_witness:
  "analyzeCode callWeaveAPI_mock
     (dispose \<lparr>config = local_config, isInitialized = True\<rparr>) example_context =
     ([], Inl (Error ''WeaveAssistant not initialized'')) \<and>
   fst (initialize (dispose \<lparr>config = keyless_config, isInitialized = True\<rparr>)) =
     \<lparr>config = keyless_config, isInitialized = False\<rparr> \<and>
   analyzeCode callWeaveAPI_mock
     (fst (initialize (dispose \<lparr>config = local_config, isInitialized = True\<rparr>)))
     example_context =
     ([CallWeaveAPI analyzeCode_systemPrompt (analyzeCode_userPrompt example_context)
         Analysis example_context],
      callWeaveAPI_mock analyzeCode_systemPrompt (analyzeCode_userPrompt example_context)
         Analysis example_context)"
proof (intro conjI)
  show "analyzeCode callWeaveAPI_mock
     (dispose \<lparr>config = local_config, isInitialized = True\<rparr>) example_context =
     ([], Inl (Error ''WeaveAssistant not initialized''))"
    using dispose_uninitializes[where api = callWeaveAPI_mock and ctx = example_context
        and a = "\<lparr>config = local_config, isInitialized = True\<rparr>"]
    by (simp add: not_initialized_def)
  show "fst (initialize (dispose \<lparr>config = keyless_config, isInitialized = True\<rparr>)) =
     \<lparr>config = keyless_config, isInitialized = False\<rparr>"
    using dispose_uninitializes[where api = callWeaveAPI_mock and ctx = example_context
        and a = "\<lparr>config = keyless_config, isInitialized = True\<rparr>"]
    by (simp add: initialize_def dispose_def keyless_config_def)
  show "analyzeCode callWeaveAPI_mock
     (fst (initialize (dispose \<lparr>config = local_config, isInitialized = True\<rparr>)))
     example_context =
     ([CallWeaveAPI analyzeCode_systemPrompt (analyzeCode_userPrompt example_context)
         Analysis example_context],
      callWeaveAPI_mock analyzeCode_systemPrompt (analyzeCode_userPrompt example_context)
         Analysis example_context)"
    using dispose_uninitializes[where api = callWeaveAPI_mock and ctx = example_context
        and a = "\<lparr>config = local_config, isInitialized = True\<rparr>"]
    by (simp add: initialize_def dispose_def local_config_def)
qed

section \<open>Statements about the command handler\<close>

text \<open>
  C9. Two runs of the toggle command, and any even number of runs, leave the
  inline-hints flag as it was; an odd number of runs negates it.
\<close>

theorem toggle_twice_restores_flag:
  "inlineHintsEnabled (toggled (toggled h)) = inlineHintsEnabled h \<and>
   inlineHintsEnabled ((toggled ^^ (2 * n)) h) = inlineHintsEnabled h \<and>
   inlineHintsEnabled ((toggled ^^ (2 * n + 1)) h) = (\<not> inlineHintsEnabled h)"
proof -
  have one: "inlineHintsEnabled (toggled x) = (\<not> inlineHintsEnabled x)" for x
    by (simp add: toggled_def toggleInlineHints_def Let_def)
  have even: "inlineHintsEnabled ((toggled ^^ (2 * n)) h) = inlineHintsEnabled h"
    by (induction n) (simp_all add: one)
  show ?thesis using even by (simp add: one)
qed

text \<open>
  C6. With an active editor whose selection is empty, each of the three commands shows
  exactly one error message (its precondition message) and does nothing else: the
  transport is not called, no panel is created, and the handler is unchanged.
\<close>

theorem empty_selection_aborts:
  assumes "activeTextEditor host = Some editor" and "isEmpty (selection editor)"
  shows "cmd_generatePrompt api host h =
           (h, [ShowErrorMessage ''Please select code to generate a prompt for'']) \<and>
         cmd_analyzeCode api host h = (h, [ShowErrorMessage ''Please select code to analyze'']) \<and>
         cmd_suggestOptimization api host h =
           (h, [ShowErrorMessage ''Please select code to optimize''])"
  using assms by (simp add: cmd_generatePrompt_def cmd_analyzeCode_def cmd_suggestOptimization_def)

theorem empty_selection_aborts_witness:
  "cmd_analyzeCode callWeaveAPI_mock
     \<lparr>activeTextEditor = Some cursor_editor, pickedAction = None\<rparr> example_handler =
   (example_handler, [ShowErrorMessage ''Please select code to analyze''])"
proof -
  have "isEmpty (selection cursor_editor)"
    by (simp add: isEmpty_def cursor_editor_def)
  from empty_selection_aborts[OF _ this, of "\<lparr>activeTextEditor = Some cursor_editor, pickedAction = None\<rparr>" callWeaveAPI_mock example_handler]
  show ?thesis by simp
qed

text \<open>
  C7, as the code has it. When the transport call of a command fails, the command
  calls the transport exactly once, creates no panel and shows exactly one error
  message: the command's prefix followed by the \<open>message\<close> of the thrown \<open>Error\<close>
  (so the message contains the failure reason), or followed by \<open>Unknown error\<close> when
  what was thrown is not an \<open>Error\<close> instance.
\<close>

theorem transport_failure_reported:
  assumes "activeTextEditor host = Some editor" and "\<not> isEmpty (selection editor)"
    and "isInitialized (weaveAssistant h)"
    and "ctx = context_of_selection editor"
  shows
   "(api generatePrompt_systemPrompt (generatePrompt_userPrompt ctx) Analysis ctx = Inl e \<longrightarrow>
       cmd_generatePrompt api host h =
         (h, [CallWeaveAPI generatePrompt_systemPrompt (generatePrompt_userPrompt ctx) Analysis ctx,
              ShowErrorMessage (''Failed to generate prompt: '' @ error_text e)])) \<and>
    (api analyzeCode_systemPrompt (analyzeCode_userPrompt ctx) Analysis ctx = Inl e \<longrightarrow>
       cmd_analyzeCode api host h =
         (h, [CallWeaveAPI analyzeCode_systemPrompt (analyzeCode_userPrompt ctx) Analysis ctx,
              ShowErrorMessage (''Failed to analyze code: '' @ error_text e)])) \<and>
    (api suggestOptimization_systemPrompt (suggestOptimization_userPrompt ctx) Suggestion ctx = Inl e \<longrightarrow>
       cmd_suggestOptimization api host h =
         (h, [CallWeaveAPI suggestOptimization_systemPrompt (suggestOptimization_userPrompt ctx) Suggestion ctx,
              ShowErrorMessage (''Failed to get suggestions: '' @ error_text e)])) \<and>
    (\<forall>prefix m. e = Error m \<longrightarrow> sublist m (prefix @ error_text e)) \<and>
    (\<forall>v. e = NonError v \<longrightarrow> error_text e = ''Unknown error'')"
  using assms
  by (auto simp: cmd_generatePrompt_def cmd_analyzeCode_def cmd_suggestOptimization_def
      generatePrompt_def analyzeCode_def suggestOptimization_def guarded_call_def
      ensureInitialized_def)

theorem transport_failure_reported_witness:
  "cmd_analyzeCode transport_rejects
     \<lparr>activeTextEditor = Some example_editor, pickedAction = None\<rparr> example_handler =
   (example_handler,
    [CallWeaveAPI analyzeCode_systemPrompt
       (analyzeCode_userPrompt (context_of_selection example_editor)) Analysis
       (context_of_selection example_editor),
     ShowErrorMessage ''Failed to analyze code: Request failed with status code 500''])"
proof -
  have a: "\<not> isEmpty (selection example_editor)"
    by (simp add: isEmpty_def example_editor_def)
  have b: "isInitialized (weaveAssistant example_handler)"
    by (simp add: example_handler_def)
  from transport_failure_reported[where host = "\<lparr>activeTextEditor = Some example_editor, pickedAction = None\<rparr>"
      and editor = example_editor and h = example_handler and api = transport_rejects
      and e = "Error ''Request failed with status code 500''", OF _ a b refl]
  show ?thesis by (simp add: transport_rejects_def)
qed

text \<open>
  C7 as stated fails when the transport rejects with a value that is not an \<open>Error\<close>
  instance: for the thrown string \<open>timeout\<close> the message is
  \<open>Failed to analyze code: Unknown error\<close>, which does not contain the reason.
\<close>

theorem unknown_error_counterexample:
  "snd (cmd_analyzeCode transport_throws_string
     \<lparr>activeTextEditor = Some example_editor, pickedAction = None\<rparr> example_handler) =
    [CallWeaveAPI analyzeCode_systemPrompt
       (analyzeCode_userPrompt (context_of_selection example_editor)) Analysis
       (context_of_selection example_editor),
     ShowErrorMessage ''Failed to analyze code: Unknown error''] \<and>
   \<not> sublist ''timeout'' ''Failed to analyze code: Unknown error''"
  by (simp add: cmd_analyzeCode_def analyzeCode_def guarded_call_def ensureInitialized_def
      example_handler_def example_editor_def isEmpty_def transport_throws_string_def
      sublist_code del: sublist_Nil_left sublist_Cons_Nil)

text \<open>
  The success path with a content that is not a string: the panel is created, the page
  is never assigned, and the \<open>TypeError\<close> of \<open>content.replace\<close> is reported.
\<close>

lemma analyze_non_string_content:
  "snd (cmd_analyzeCode (callWeaveAPI example_config post_number_content)
     \<lparr>activeTextEditor = Some example_editor, pickedAction = None\<rparr> example_handler) =
    [CallWeaveAPI analyzeCode_systemPrompt
       (analyzeCode_userPrompt (context_of_selection example_editor)) Analysis
       (context_of_selection example_editor),
     CreateWebviewPanel ''Weave: Code Analysis'',
     ShowErrorMessage ''Failed to analyze code: content.replace is not a function'']"
  by (simp add: cmd_analyzeCode_def analyzeCode_def guarded_call_def ensureInitialized_def
      example_handler_def example_editor_def isEmpty_def callWeaveAPI_def
      post_number_content_def result_of_data_def js_or_def)

section \<open>Statements about the completion provider\<close>

text \<open>
  C4, as the code has it. When the word under the cursor is shorter than three
  characters the provider returns no candidates and does not call the assistant. When
  the word has three characters or more, the token is not cancelled at any of its three
  reads, the trigger is not a bare trigger-character event and the completion call
  resolves with a string, the provider returns exactly one candidate, labelled
  \<open>Weave: \<close>, the first 50 characters of the string, and \<open>...\<close>. When the completion
  call resolves with a value that is not a string, the provider returns no candidates.
\<close>

theorem completion_candidates:
  "(length (word_at doc position) < 3 \<longrightarrow>
      provideCompletionItems api a doc position token cc = ([], None)) \<and>
   (3 \<le> length (word_at doc position) \<and>
    \<not> token 0 \<and> \<not> token 1 \<and> \<not> token 2 \<and>
    \<not> (triggerKind cc = TriggerCharacter \<and> no_trigger_character cc) \<and>
    generateCompletion api a (context_at_cursor doc position) position = (evs, Inr (JStr s)) \<longrightarrow>
      provideCompletionItems api a doc position token cc = (evs, Some [completion_item s]) \<and>
      item_label (completion_item s) = ''Weave: '' @ take 50 s @ ''...'') \<and>
   (generateCompletion api a (context_at_cursor doc position) position = (evs', Inr v) \<and>
    \<not> is_string v \<longrightarrow>
      snd (provideCompletionItems api a doc position token cc) = None)"
proof (intro conjI impI)
  assume "length (word_at doc position) < 3"
  then show "provideCompletionItems api a doc position token cc = ([], None)"
    by (simp add: provideCompletionItems_def)
next
  assume "3 \<le> length (word_at doc position) \<and>
    \<not> token 0 \<and> \<not> token 1 \<and> \<not> token 2 \<and>
    \<not> (triggerKind cc = TriggerCharacter \<and> no_trigger_character cc) \<and>
    generateCompletion api a (context_at_cursor doc position) position = (evs, Inr (JStr s))"
  then show "provideCompletionItems api a doc position token cc =
      (evs, Some [completion_item s])"
    by (auto simp: provideCompletionItems_def)
next
  show "item_label (completion_item s) = ''Weave: '' @ take 50 s @ ''...''"
    by (simp add: completion_item_def)
next
  assume "generateCompletion api a (context_at_cursor doc position) position = (evs', Inr v) \<and>
    \<not> is_string v"
  then show "snd (provideCompletionItems api a doc position token cc) = None"
    by (cases v) (auto simp: provideCompletionItems_def)
qed

theorem completion_candidates_witness:
  "provideCompletionItems callWeaveAPI_mock (weaveAssistant example_handler)
     short_word_document cursor_position never_cancelled invoked = ([], None) \<and>
   snd (provideCompletionItems callWeaveAPI_mock (weaveAssistant example_handler)
     example_document cursor_position never_cancelled invoked) =
     Some [\<lparr>item_label = ''Weave: [Mock completion] This is a placeholder response. ...'',
            item_kind = Text_kind,
            sortText = ''0-weave'',
            detail = ''AI-powered completion by Weave'',
            documentation = ''Completion suggested by Weave AI Assistant''\<rparr>] \<and>
   snd (provideCompletionItems (callWeaveAPI example_config post_number_content)
     (weaveAssistant example_handler) example_document cursor_position never_cancelled
     invoked) = None"
proof (intro conjI)
  show "provideCompletionItems callWeaveAPI_mock (weaveAssistant example_handler)
     short_word_document cursor_position never_cancelled invoked = ([], None)"
    using completion_candidates[where doc = short_word_document and position = cursor_position
        and api = callWeaveAPI_mock and a = "weaveAssistant example_handler"
        and token = never_cancelled and cc = invoked]
    by (simp add: word_at_def short_word_document_def example_document_def)
next
  let ?ctx = "context_at_cursor example_document cursor_position"
  let ?evs = "[CallWeaveAPI generateCompletion_systemPrompt
                 (generateCompletion_userPrompt ?ctx cursor_position) Completion ?ctx]"
  let ?completion = "''[Mock completion] This is a placeholder response. '' @
                     ''In production, this would be generated by the Weave framework.''"
  have call: "generateCompletion callWeaveAPI_mock (weaveAssistant example_handler)
                ?ctx cursor_position = (?evs, Inr (JStr ?completion))"
    by (simp add: generateCompletion_def guarded_call_def ensureInitialized_def
        example_handler_def callWeaveAPI_mock_def)
  have word: "3 \<le> length (word_at example_document cursor_position)"
    by (simp add: word_at_def example_document_def)
  have trigger: "\<not> (triggerKind invoked = TriggerCharacter \<and> no_trigger_character invoked)"
    by (simp add: invoked_def)
  from completion_candidates[where doc = example_document and position = cursor_position
        and api = callWeaveAPI_mock and a = "weaveAssistant example_handler"
        and token = never_cancelled and cc = invoked and evs = ?evs
        and s = ?completion] call word trigger
  have "provideCompletionItems callWeaveAPI_mock (weaveAssistant example_handler)
          example_document cursor_position never_cancelled invoked =
        (?evs, Some [completion_item ?completion])"
    by (simp add: never_cancelled_def)
  then show "snd (provideCompletionItems callWeaveAPI_mock (weaveAssistant example_handler)
     example_document cursor_position never_cancelled invoked) =
     Some [\<lparr>item_label = ''Weave: [Mock completion] This is a placeholder response. ...'',
            item_kind = Text_kind,
            sortText = ''0-weave'',
            detail = ''AI-powered completion by Weave'',
            documentation = ''Completion suggested by Weave AI Assistant''\<rparr>]"
    by (simp add: completion_item_def)
next
  let ?ctx = "context_at_cursor example_document cursor_position"
  let ?evs = "[CallWeaveAPI generateCompletion_systemPrompt
                 (generateCompletion_userPrompt ?ctx cursor_position) Completion ?ctx]"
  have call: "generateCompletion (callWeaveAPI example_config post_number_content)
                (weaveAssistant example_handler) ?ctx cursor_position =
              (?evs, Inr (JNum 5))"
    by (simp add: generateCompletion_def guarded_call_def ensureInitialized_def
        example_handler_def callWeaveAPI_def post_number_content_def result_of_data_def
        js_or_def)
  from completion_candidates[where doc = example_document and position = cursor_position
        and api = "callWeaveAPI example_config post_number_content"
        and a = "weaveAssistant example_handler"
        and token = never_cancelled and cc = invoked and evs' = ?evs and v = "JNum 5"] call
  show "snd (provideCompletionItems (callWeaveAPI example_config post_number_content)
     (weaveAssistant example_handler) example_document cursor_position never_cancelled
     invoked) = None"
    by simp
qed

text \<open>
  C4 as stated fails when the completion call succeeds with a value that is not a
  string: for the body \<open>{"content": 5}\<close> the HTTP variant of the assistant resolves
  with the number 5, the word under the cursor has eight characters, nothing is
  cancelled, and the provider returns no candidate.
\<close>

theorem non_string_completion_counterexample:
  "snd (generateCompletion (callWeaveAPI example_config post_number_content)
     (weaveAssistant example_handler)
     (context_at_cursor example_document cursor_position) cursor_position) = Inr (JNum 5) \<and>
   length (word_at example_document cursor_position) = 8 \<and>
   snd (provideCompletionItems (callWeaveAPI example_config post_number_content)
     (weaveAssistant example_handler) example_document cursor_position never_cancelled
     invoked) = None"
  by (simp add: provideCompletionItems_def generateCompletion_def guarded_call_def
      ensureInitialized_def example_handler_def callWeaveAPI_def post_number_content_def
      result_of_data_def js_or_def word_at_def example_document_def never_cancelled_def
      invoked_def)

section \<open>Statements about the code-lens provider\<close>

text \<open>
  \<open>exec_from\<close> finds a match, and the leftmost one from \<open>lastIndex\<close> on.
\<close>

lemma exec_from_match: "exec_from t i = Some (j, e) \<Longrightarrow> match_at t j = Some e"
proof (induction t i rule: exec_from.induct)
  case (1 t i)
  then show ?case
    by (subst (asm) (2) exec_from.simps) (auto split: if_splits option.splits)
qed

lemma exec_from_leftmost:
  "exec_from t i = Some (j, e) \<Longrightarrow> i \<le> k \<Longrightarrow> k < j \<Longrightarrow> match_at t k = None"
proof (induction t i rule: exec_from.induct)
  case (1 t i)
  show ?case
  proof (cases "match_at t i")
    case None
    with "1.prems" have ex: "exec_from t (Suc i) = Some (j, e)" and le: "\<not> length t < i"
      by (subst (asm) exec_from.simps, auto split: if_splits)+
    show ?thesis
    proof (cases "k = i")
      case True
      with None show ?thesis by simp
    next
      case False
      with "1.prems" have "Suc i \<le> k" by simp
      from "1.IH"[OF le None ex this] "1.prems" show ?thesis by simp
    qed
  next
    case (Some e')
    with "1.prems" show ?thesis
      by (subst (asm) exec_from.simps) (auto split: if_splits)
  qed
qed

lemma exec_from_none:
  "exec_from t i = None \<Longrightarrow> i \<le> k \<Longrightarrow> k \<le> length t \<Longrightarrow> match_at t k = None"
proof (induction t i rule: exec_from.induct)
  case (1 t i)
  from "1.prems" have le: "\<not> length t < i" by simp
  from "1.prems"(1) le have none: "match_at t i = None" and ex: "exec_from t (Suc i) = None"
    by (subst (asm) exec_from.simps, auto split: if_splits option.splits)+
  show ?case
  proof (cases "k = i")
    case True
    with none show ?thesis by simp
  next
    case False
    with "1.prems" have "Suc i \<le> k" by simp
    from "1.IH"[OF le none ex this] "1.prems" show ?thesis by simp
  qed
qed

lemma pattern_matches_are_matches:
  "i \<in> set (pattern_matches t lastIndex) \<Longrightarrow>
   lastIndex \<le> i \<and> at_line_start t i \<and> match_pattern (drop i t) \<noteq> None"
proof (induction t lastIndex rule: pattern_matches.induct)
  case (1 t lastIndex)
  show ?case
  proof (cases "exec_from t lastIndex")
    case None
    with "1.prems" show ?thesis by (simp add: pattern_matches.simps[of t lastIndex])
  next
    case (Some je)
    obtain j e where je: "je = (j, e)" by (cases je)
    from Some je have b: "lastIndex \<le> j" "j < e" and m: "match_at t j = Some e"
      using exec_from_bounds[of t lastIndex j e] exec_from_match[of t lastIndex j e] by auto
    from "1.prems" Some je have "i = j \<or> i \<in> set (pattern_matches t e)"
      by (simp add: pattern_matches.simps[of t lastIndex])
    then show ?thesis
    proof
      assume "i = j"
      with b m show ?thesis by (auto simp: match_at_def split: if_splits option.splits)
    next
      assume "i \<in> set (pattern_matches t e)"
      from "1.IH"[OF Some je[symmetric] this] b show ?thesis by simp
    qed
  qed
qed

lemma lens_loop_not_cancelled:
  "\<forall>j < length (pattern_matches (getText doc) lastIndex). \<not> token (k + j) \<Longrightarrow>
   lens_loop doc token lastIndex k lenses =
     Some (lenses @ map (optimize_lens doc) (pattern_matches (getText doc) lastIndex))"
proof (induction doc token lastIndex k lenses rule: lens_loop.induct)
  case (1 doc token lastIndex k lenses)
  show ?case
  proof (cases "exec_from (getText doc) lastIndex")
    case None
    then show ?thesis
      by (simp add: lens_loop.simps[of doc token lastIndex] pattern_matches.simps[of _ lastIndex])
  next
    case (Some ie)
    obtain i e where ie: "ie = (i, e)" by (cases ie)
    have pm: "pattern_matches (getText doc) lastIndex = i # pattern_matches (getText doc) e"
      using Some ie by (simp add: pattern_matches.simps[of _ lastIndex])
    from "1.prems" pm have nk: "\<not> token k" by force
    from "1.prems" pm
    have rest: "\<forall>j < length (pattern_matches (getText doc) e). \<not> token (Suc k + j)"
      by force
    have "lens_loop doc token e (Suc k) (lenses @ [optimize_lens doc i]) =
        Some ((lenses @ [optimize_lens doc i]) @
              map (optimize_lens doc) (pattern_matches (getText doc) e))"
      using "1.IH"[OF Some ie[symmetric] nk rest] .
    then show ?thesis
      using Some ie nk pm by (simp add: lens_loop.simps[of doc token lastIndex])
  qed
qed

lemma lens_loop_cancelled:
  "j < length (pattern_matches (getText doc) lastIndex) \<Longrightarrow> token (k + j) \<Longrightarrow>
   lens_loop doc token lastIndex k lenses = None"
proof (induction doc token lastIndex k lenses arbitrary: j rule: lens_loop.induct)
  case (1 doc token lastIndex k lenses)
  show ?case
  proof (cases "exec_from (getText doc) lastIndex")
    case None
    with "1.prems" show ?thesis
      by (simp add: pattern_matches.simps[of _ lastIndex])
  next
    case (Some ie)
    obtain i e where ie: "ie = (i, e)" by (cases ie)
    have pm: "pattern_matches (getText doc) lastIndex = i # pattern_matches (getText doc) e"
      using Some ie by (simp add: pattern_matches.simps[of _ lastIndex])
    show ?thesis
    proof (cases "token k")
      case True
      then show ?thesis
        using Some ie by (simp add: lens_loop.simps[of doc token lastIndex])
    next
      case False
      with "1.prems" obtain j' where j': "j = Suc j'" by (cases j) auto
      with "1.prems" pm
      have "j' < length (pattern_matches (getText doc) e)" and "token (Suc k + j')"
        by auto
      from "1.IH"[OF Some ie[symmetric] False this]
      show ?thesis
        using Some ie False by (simp add: lens_loop.simps[of doc token lastIndex])
    qed
  qed
qed

lemma pattern_matches_export: "pattern_matches ''export function f'' 0 = []"
  by code_simp

lemma spec_occurrences_export: "spec_occurrences ''export function f'' 0 = [7]"
  by code_simp

lemma pattern_matches_three_lines:
  "pattern_matches ''class A {}\<newline>export function f\<newline>async function g'' 0 = [0, 29]"
  by code_simp

text \<open>
  C5, as the code has it. Absent cancellation the provider returns the fixed analyze
  lens at the start of the document followed by one optimize lens per match of
  \<open>/^(async\s+)?(function|class)\s+(\w+)/gm\<close>, that is \<open>1 + N\<close> lenses where \<open>N\<close>
  counts the successive matches; every match starts at the start of a line. With no
  match the analyze lens is the only one.
\<close>

theorem code_lens_count:
  assumes "\<forall>k \<le> length (pattern_matches (getText doc) 0). \<not> token k"
  shows "provideCodeLenses doc token =
           Some (analyze_lens # map (optimize_lens doc) (pattern_matches (getText doc) 0)) \<and>
         (\<exists>lenses. provideCodeLenses doc token = Some lenses \<and>
            length lenses = 1 + length (pattern_matches (getText doc) 0)) \<and>
         (pattern_matches (getText doc) 0 = [] \<longrightarrow> provideCodeLenses doc token = Some [analyze_lens]) \<and>
         (\<forall>i \<in> set (pattern_matches (getText doc) 0).
            at_line_start (getText doc) i \<and> match_pattern (drop i (getText doc)) \<noteq> None)"
proof -
  from assms have t0: "\<not> token 0" by simp
  from assms have "\<forall>j < length (pattern_matches (getText doc) 0). \<not> token (1 + j)"
    by auto
  from lens_loop_not_cancelled[of doc 0 token 1 "[analyze_lens]", OF this] t0
  have "provideCodeLenses doc token =
           Some (analyze_lens # map (optimize_lens doc) (pattern_matches (getText doc) 0))"
    by (simp add: provideCodeLenses_def)
  then show ?thesis using pattern_matches_are_matches[of _ "getText doc" 0] by auto
qed

theorem code_lens_count_witness:
  "provideCodeLenses three_line_document never_cancelled =
     Some [analyze_lens,
           optimize_lens three_line_document 0,
           optimize_lens three_line_document 29]"
proof -
  have "\<forall>k \<le> length (pattern_matches (getText three_line_document) 0). \<not> never_cancelled k"
    by (simp add: never_cancelled_def)
  from code_lens_count[OF this] show ?thesis
    by (simp add: three_line_document_def pattern_matches_three_lines)
qed

text \<open>
  C5 as stated fails: the text \<open>export function f\<close> holds one occurrence of the
  pattern the specification names, yet the provider returns the analyze lens alone,
  because the occurrence does not start a line.
\<close>

theorem unanchored_occurrence_counterexample:
  "map_option length (provideCodeLenses example_document never_cancelled) \<noteq>
   Some (1 + length (spec_occurrences (getText example_document) 0))"
proof -
  from lens_loop_not_cancelled[of example_document 0 never_cancelled 1 "[analyze_lens]"]
  have "provideCodeLenses example_document never_cancelled = Some [analyze_lens]"
    by (simp add: provideCodeLenses_def never_cancelled_def example_document_def
        pattern_matches_export)
  then show ?thesis
    by (simp add: example_document_def spec_occurrences_export)
qed

section \<open>Statements about cancellation\<close>

text \<open>
  C8. If the token is cancelled at any of the three reads of the completion provider
  (two before the completion call, one after it), the provider returns \<open>null\<close>; if it
  is cancelled at one of the first two, the assistant is not called at all. If the
  token is cancelled at a read of the code-lens provider (one at the start, one per
  match), that provider returns \<open>null\<close>.
\<close>

theorem cancellation_returns_nothing:
  "(token 0 \<or> token 1 \<or> token 2 \<longrightarrow>
      snd (provideCompletionItems api a doc position token cc) = None) \<and>
   (token 0 \<or> token 1 \<longrightarrow>
      provideCompletionItems api a doc position token cc = ([], None)) \<and>
   ((\<exists>k \<le> length (pattern_matches (getText doc) 0). token' k) \<longrightarrow>
      provideCodeLenses doc token' = None)"
proof (intro conjI impI)
  assume "token 0 \<or> token 1 \<or> token 2"
  then show "snd (provideCompletionItems api a doc position token cc) = None"
    by (auto simp: provideCompletionItems_def split: prod.splits sum.splits)
next
  assume "token 0 \<or> token 1"
  then show "provideCompletionItems api a doc position token cc = ([], None)"
    by (auto simp: provideCompletionItems_def)
next
  assume "\<exists>k \<le> length (pattern_matches (getText doc) 0). token' k"
  then obtain k where k: "k \<le> length (pattern_matches (getText doc) 0)" "token' k" by blast
  show "provideCodeLenses doc token' = None"
  proof (cases k)
    case 0
    with k show ?thesis by (simp add: provideCodeLenses_def)
  next
    case (Suc j)
    with k have "j < length (pattern_matches (getText doc) 0)" "token' (1 + j)" by auto
    from lens_loop_cancelled[of j doc 0 token' 1 "[analyze_lens]", OF this] show ?thesis
      by (simp add: provideCodeLenses_def)
  qed
qed

theorem cancellation_returns_nothing_witness:
  "snd (provideCompletionItems callWeaveAPI_mock (weaveAssistant example_handler)
     example_document cursor_position cancelled_during_call invoked) = None \<and>
   provideCompletionItems callWeaveAPI_mock (weaveAssistant example_handler)
     example_document cursor_position cancelled_during_scan invoked = ([], None) \<and>
   provideCodeLenses three_line_document cancelled_during_scan = None"
proof (intro conjI)
  show "snd (provideCompletionItems callWeaveAPI_mock (weaveAssistant example_handler)
     example_document cursor_position cancelled_during_call invoked) = None"
    using cancellation_returns_nothing[where token = cancelled_during_call]
    by (simp add: cancelled_during_call_def)
  show "provideCompletionItems callWeaveAPI_mock (weaveAssistant example_handler)
     example_document cursor_position cancelled_during_scan invoked = ([], None)"
    using cancellation_returns_nothing[where token = cancelled_during_scan]
    by (simp add: cancelled_during_scan_def)
  have "\<exists>k \<le> length (pattern_matches (getText three_line_document) 0). cancelled_during_scan k"
    by (rule exI[of _ 1])
       (simp add: cancelled_during_scan_def three_line_document_def pattern_matches_three_lines)
  with cancellation_returns_nothing[where token' = cancelled_during_scan
      and doc = three_line_document]
  show "provideCodeLenses three_line_document cancelled_during_scan = None"
    by blast
qed

end
